theory Spec2Isabelle
  imports Complex_Main
begin

section \<open>History manager (src/hooks/useHistoryStack.ts)\<close>

text \<open>
  The hook keeps two stacks of entries, a re-entrancy flag, the time of the last
  successful save and the handle of one debounce timer. The document is the
  \<open>innerHTML\<close> of the editor root. The model is parametric in the type \<open>'d\<close> of
  that serialized document; the selection that \<open>getCursorPosition\<close> reads from the
  browser, and the clock \<open>Date.now()\<close>, are inputs of each operation. The editor root
  is taken to be mounted (\<open>editorRef.current\<close> is not null).
\<close>

record cursor_position =
  startOffset :: nat
  endOffset :: nat
  startPath :: "nat list"
  endPath :: "nat list"

record 'd HistoryEntry =
  html :: 'd
  cursorPosition :: "cursor_position option"

text \<open>
  \<open>debounceTimeout\<close> holds the due time of the timer that is scheduled and has not yet
  run, \<open>None\<close> when no timer is outstanding (the source keeps the stale handle after
  the callback ran; clearing it then does nothing).
\<close>

record 'd history =
  content :: 'd
  undoStack :: "'d HistoryEntry list"
  redoStack :: "'d HistoryEntry list"
  isUndoRedoing :: bool
  lastSaveTime :: int
  debounceTimeout :: "int option"

definition MAX_HISTORY_SIZE :: nat where
  "MAX_HISTORY_SIZE = 100"

text \<open>The state of a freshly mounted hook around a document \<open>d\<close>.\<close>

definition initialHistory :: "'d \<Rightarrow> 'd history" where
  "initialHistory d =
     \<lparr>content = d, undoStack = [], redoStack = [], isUndoRedoing = False,
      lastSaveTime = 0, debounceTimeout = None\<rparr>"

text \<open>\<open>newStack.slice(-MAX_HISTORY_SIZE)\<close> when the stack has grown past the cap.\<close>

definition pushCapped :: "'e list \<Rightarrow> 'e \<Rightarrow> 'e list" where
  "pushCapped prev entry =
     (let newStack = prev @ [entry] in
      if length newStack > MAX_HISTORY_SIZE
      then drop (length newStack - MAX_HISTORY_SIZE) newStack
      else newStack)"

text \<open>
  \<open>saveHistory()\<close> called at time \<open>now\<close> while the browser's selection reads as
  \<open>cur\<close>. Within 50 ms of the last successful save the call only (re)schedules the
  timer, due 50 ms later.
\<close>

definition saveHistory :: "int \<Rightarrow> cursor_position option \<Rightarrow> 'd history \<Rightarrow> 'd history" where
  "saveHistory now cur s =
     (if isUndoRedoing s then s
      else if now - lastSaveTime s < 50 then s\<lparr>debounceTimeout := Some (now + 50)\<rparr>
      else s\<lparr>lastSaveTime := now,
             undoStack := pushCapped (undoStack s) \<lparr>html = content s, cursorPosition = cur\<rparr>,
             redoStack := []\<rparr>)"













section \<open>Document tree and browser selection\<close>

text \<open>
  The document is the list of child nodes of the editor root. An element carries its tag
  name (upper case, as \<open>tagName\<close> reads it), its attributes other than \<open>style\<close>, the
  declarations of its inline style (CSS property name and value, distinct names, in
  serialization order), and its children. Comments do not occur. A node is addressed by
  the child indices leading to it from the editor root; the empty path is the root
  itself. Serializing a tree with \<open>innerHTML\<close> and parsing it back is taken to give the
  same tree, so a serialized document is the tree it denotes.

  The operations of the browser that the editor calls (ranges, \<open>insertNode\<close>,
  \<open>extractContents\<close>, \<open>style\<close>) are not code of the editor; they are written here
  after the DOM standard, on this tree.
\<close>

type_synonym attrs = "(string \<times> string) list"

type_synonym css = "(string \<times> string) list"

datatype Node =
    Text string
  | Element string attrs css "Node list"

type_synonym path = "nat list"

fun childNodes :: "Node \<Rightarrow> Node list" where
  "childNodes (Text s) = []"
| "childNodes (Element t a st cs) = cs"

fun textContent :: "Node \<Rightarrow> string" where
  "textContent (Text s) = s"
| "textContent (Element t a st cs) = concat (map textContent cs)"

fun isElement :: "Node \<Rightarrow> bool" where
  "isElement (Text s) = False"
| "isElement (Element t a st cs) = True"

fun hasTag :: "string \<Rightarrow> Node \<Rightarrow> bool" where
  "hasTag n (Text s) = False"
| "hasTag n (Element t a st cs) = (t = n)"

text \<open>\<open>style.getPropertyValue(p)\<close>, and an attribute read: empty when not set.\<close>

definition getPropertyValue :: "css \<Rightarrow> string \<Rightarrow> string" where
  "getPropertyValue st p = (case map_of st p of None \<Rightarrow> [] | Some v \<Rightarrow> v)"

definition getAttribute :: "attrs \<Rightarrow> string \<Rightarrow> string" where
  "getAttribute a n = (case map_of a n of None \<Rightarrow> [] | Some v \<Rightarrow> v)"

text \<open>Assigning one style property: an existing declaration is replaced in place.\<close>

fun setProperty :: "string \<Rightarrow> string \<Rightarrow> css \<Rightarrow> css" where
  "setProperty k v [] = [(k, v)]"
| "setProperty k v ((k', v') # r) =
     (if k = k' then (k, v) # r else (k', v') # setProperty k v r)"

text \<open>
  \<open>x.style.cssText = a + ' ' + b\<close>: the declarations of \<open>a\<close> followed by those of
  \<open>b\<close>, a later declaration of a property replacing the earlier one.
\<close>

definition cssConcat :: "css \<Rightarrow> css \<Rightarrow> css" where
  "cssConcat a b = filter (\<lambda>d. fst d \<notin> fst ` set b) a @ b"

text \<open>The node at a non-empty path, if the path leads to one.\<close>

fun nodeAt :: "Node list \<Rightarrow> path \<Rightarrow> Node option" where
  "nodeAt ns [] = None"
| "nodeAt ns [i] = (if i < length ns then Some (ns ! i) else None)"
| "nodeAt ns (i # j # p) =
     (if i < length ns then nodeAt (childNodes (ns ! i)) (j # p) else None)"

text \<open>The children of the node at a path; of the root for the empty path.\<close>

definition childrenAt :: "Node list \<Rightarrow> path \<Rightarrow> Node list" where
  "childrenAt ns p = (if p = [] then ns else case nodeAt ns p of None \<Rightarrow> [] | Some n \<Rightarrow> childNodes n)"

text \<open>Replace the child list of the element at a path (of the root for the empty path).\<close>

fun updateChildren :: "path \<Rightarrow> (Node list \<Rightarrow> Node list) \<Rightarrow> Node list \<Rightarrow> Node list" where
  "updateChildren [] f ns = f ns"
| "updateChildren (i # p) f ns =
     (if i < length ns then
        (case ns ! i of
           Text s \<Rightarrow> ns
         | Element t a st cs \<Rightarrow> ns[i := Element t a st (updateChildren p f cs)])
      else ns)"

text \<open>
  The walk \<open>while (node && node !== editorRef.current) { ...; node = node.parentNode }\<close>
  from the node at a path: the paths visited, innermost first, and the nodes found there.
\<close>

fun inclusiveAncestors :: "path \<Rightarrow> path list" where
  "inclusiveAncestors [] = []"
| "inclusiveAncestors (i # p) = (i # p) # inclusiveAncestors (butlast (i # p))"

definition ancestorNodes :: "Node list \<Rightarrow> path \<Rightarrow> Node list" where
  "ancestorNodes doc p = List.map_filter (nodeAt doc) (inclusiveAncestors p)"

text \<open>
  A DOM Range: \<open>startContainer\<close>, \<open>startOffset\<close>, \<open>endContainer\<close>, \<open>endOffset\<close>, the
  containers given by their paths. Both boundary points lie in the editor, the start not
  after the end. The browser's selection is a range or none (\<open>rangeCount === 0\<close>).
\<close>

record dom_range =
  startNode :: path
  startOff :: nat
  endNode :: path
  endOff :: nat

definition collapsed :: "dom_range \<Rightarrow> bool" where
  "collapsed r = (startNode r = endNode r \<and> startOff r = endOff r)"

fun commonPrefix :: "path \<Rightarrow> path \<Rightarrow> path" where
  "commonPrefix (i # p) (j # q) = (if i = j then i # commonPrefix p q else [])"
| "commonPrefix _ _ = []"

definition commonAncestorContainer :: "dom_range \<Rightarrow> path" where
  "commonAncestorContainer r = commonPrefix (startNode r) (endNode r)"

text \<open>
  Splitting a list of siblings at a boundary point below it: what lies before the point
  and what lies after it. An element that holds the point appears on both sides, with
  the children before the point and those after it; a text node is split at the offset.
\<close>

fun cut :: "Node list \<Rightarrow> path \<Rightarrow> nat \<Rightarrow> Node list \<times> Node list" where
  "cut ns [] k = (take k ns, drop k ns)"
| "cut ns (i # p) k =
     (if i < length ns then
        (case ns ! i of
           Text s \<Rightarrow> (take i ns @ [Text (take k s)], Text (drop k s) # drop (Suc i) ns)
         | Element t a st cs \<Rightarrow>
             (take i ns @ [Element t a st (fst (cut cs p k))],
              Element t a st (snd (cut cs p k)) # drop (Suc i) ns))
      else (ns, []))"

text \<open>
  \<open>Range.extractContents()\<close>: the extracted nodes, the document left behind, and the
  boundary point the range collapses to. Within one text node the node keeps the text
  around the extracted part. Otherwise the children of the common ancestor are split at
  both boundary points (partially selected elements stay in the document with their
  unselected children and appear in the fragment as clones with the selected ones).
\<close>

definition extractContents :: "Node list \<Rightarrow> dom_range \<Rightarrow> Node list \<times> Node list \<times> path \<times> nat" where
  "extractContents doc r =
     (if collapsed r then ([], doc, startNode r, startOff r)
      else
        (case (if startNode r = endNode r then nodeAt doc (startNode r) else None) of
           Some (Text s) \<Rightarrow>
             ([Text (take (endOff r - startOff r) (drop (startOff r) s))],
              updateChildren (butlast (startNode r))
                (\<lambda>ns. ns[last (startNode r) := Text (take (startOff r) s @ drop (endOff r) s)]) doc,
              startNode r, startOff r)
         | _ \<Rightarrow>
             (let ca = commonAncestorContainer r;
                  ns = childrenAt doc ca;
                  (upToEnd, afterEnd) = cut ns (drop (length ca) (endNode r)) (endOff r);
                  (beforeStart, inside) = cut upToEnd (drop (length ca) (startNode r)) (startOff r)
              in (inside, updateChildren ca (\<lambda>_. beforeStart @ afterEnd) doc,
                  ca, length beforeStart))))"

text \<open>\<open>Range.deleteContents()\<close> leaves the same document and discards the nodes.\<close>

definition deleteContents :: "Node list \<Rightarrow> dom_range \<Rightarrow> Node list \<times> path \<times> nat" where
  "deleteContents doc r = snd (extractContents doc r)"

text \<open>\<open>Range.toString()\<close>: the text inside the range.\<close>

definition rangeToString :: "Node list \<Rightarrow> dom_range \<Rightarrow> string" where
  "rangeToString doc r = concat (map textContent (fst (extractContents doc r)))"

text \<open>
  \<open>Range.insertNode\<close> at a collapsed range (a fragment inserts its children): a text
  node holding the point is split there, and the nodes go in at the point.
\<close>

definition insertNodes :: "Node list \<Rightarrow> path \<times> nat \<Rightarrow> Node list \<Rightarrow> Node list" where
  "insertNodes doc pos new =
     (case nodeAt doc (fst pos) of
        Some (Text s) \<Rightarrow>
          updateChildren (butlast (fst pos))
            (\<lambda>ns. fst (cut ns [last (fst pos)] (snd pos)) @ new
                   @ snd (cut ns [last (fst pos)] (snd pos))) doc
      | _ \<Rightarrow>
          updateChildren (fst pos) (\<lambda>ns. take (snd pos) ns @ new @ drop (snd pos) ns) doc)"

section \<open>Selection resolver (src/hooks/useEditorSelection.ts)\<close>

text \<open>
  The two interfaces of the hook, nodes given by their paths. The fields \<open>range\<close> and
  \<open>text\<close> are written \<open>range'\<close> and \<open>text'\<close>.
\<close>

record EditorSelection =
  range' :: "dom_range option"
  isCollapsed :: bool
  startContainer :: "path option"
  endContainer :: "path option"
  commonAncestor :: "path option"
  text' :: string

record SelectionTarget =
  node :: "path option"
  isFullBlock :: bool
  blockElement :: "path option"

definition BLOCK_ELEMENTS :: "string list" where
  "BLOCK_ELEMENTS = [''H1'', ''H2'', ''H3'', ''P'', ''LI'', ''BLOCKQUOTE'', ''PRE'']"

text \<open>\<open>getSelection()\<close>, reading the document and the browser's selection \<open>w\<close>.\<close>

definition getSelection :: "Node list \<Rightarrow> dom_range option \<Rightarrow> EditorSelection" where
  "getSelection doc w =
     (case w of
        None \<Rightarrow>
          \<lparr>range' = None, isCollapsed = True, startContainer = None, endContainer = None,
           commonAncestor = None, text' = []\<rparr>
      | Some r \<Rightarrow>
          \<lparr>range' = Some r, isCollapsed = collapsed r, startContainer = Some (startNode r),
           endContainer = Some (endNode r), commonAncestor = Some (commonAncestorContainer r),
           text' = rangeToString doc r\<rparr>)"

definition isBlockElement :: "Node \<Rightarrow> bool" where
  "isBlockElement n = (case n of Text s \<Rightarrow> False | Element t a st cs \<Rightarrow> t \<in> set BLOCK_ELEMENTS)"

definition findBlockParent :: "Node list \<Rightarrow> path option \<Rightarrow> path option" where
  "findBlockParent doc n =
     (case n of
        None \<Rightarrow> None
      | Some p \<Rightarrow>
          find (\<lambda>q. case nodeAt doc q of None \<Rightarrow> False | Some m \<Rightarrow> isBlockElement m)
            (inclusiveAncestors p))"

text \<open>
  \<open>String.prototype.trim\<close> on the ASCII white space. Strings are byte strings here: the
  white space beyond ASCII that \<open>trim\<close> also strips (the no-break space U+00A0 and the
  other Unicode spaces) is not represented, and a text made of such characters only
  counts as text here where the source takes it for empty.
\<close>

definition isSpace :: "char \<Rightarrow> bool" where
  "isSpace c = (c \<in> set [CHR '' '', CHR 0x09, CHR 0x0A, CHR 0x0B, CHR 0x0C, CHR 0x0D])"

definition trim :: "string \<Rightarrow> string" where
  "trim s = rev (dropWhile isSpace (rev (dropWhile isSpace s)))"

definition isFullBlockSelected :: "Node list \<Rightarrow> dom_range \<Rightarrow> path \<Rightarrow> bool" where
  "isFullBlockSelected doc r blk =
     (let startMatch = (startNode r = blk \<and> startOff r = 0);
          endMatch = (endNode r = blk \<and> endOff r = length (childrenAt doc blk))
      in if startMatch \<and> endMatch then True
         else
           (let blockText = (case nodeAt doc blk of None \<Rightarrow> [] | Some n \<Rightarrow> textContent n);
                selectedText = rangeToString doc r
            in trim blockText = trim selectedText \<and> length selectedText > 0))"

definition findFontTarget :: "Node list \<Rightarrow> EditorSelection \<Rightarrow> SelectionTarget" where
  "findFontTarget doc currentSel =
     (case range' currentSel of
        None \<Rightarrow> \<lparr>node = None, isFullBlock = False, blockElement = None\<rparr>
      | Some r \<Rightarrow>
          if isCollapsed currentSel then \<lparr>node = None, isFullBlock = False, blockElement = None\<rparr>
          else
            (case findBlockParent doc (commonAncestor currentSel) of
               None \<Rightarrow> \<lparr>node = None, isFullBlock = False, blockElement = None\<rparr>
             | Some blk \<Rightarrow>
                 \<lparr>node = (if isFullBlockSelected doc r blk then Some blk else None),
                  isFullBlock = isFullBlockSelected doc r blk,
                  blockElement = Some blk\<rparr>))"

text \<open>
  The result of \<open>getActiveFormats\<close>: a flag that is never set reads as \<open>False\<close>, a
  scalar that is never set as \<open>None\<close>.
\<close>

record formats =
  bold :: bool
  italic :: bool
  underline :: bool
  strike :: bool
  link :: "string option"
  block :: "string option"
  fontSize :: "string option"
  fontFamily :: "string option"
  color :: "string option"
  backgroundColor :: "string option"
  unorderedList :: bool
  orderedList :: bool

definition noFormats :: formats where
  "noFormats =
     \<lparr>bold = False, italic = False, underline = False, strike = False, link = None,
      block = None, fontSize = None, fontFamily = None, color = None,
      backgroundColor = None, unorderedList = False, orderedList = False\<rparr>"

text \<open>\<open>haystack.includes(needle)\<close>.\<close>

fun stringIncludes :: "string \<Rightarrow> string \<Rightarrow> bool" where
  "stringIncludes [] needle = (needle = [])"
| "stringIncludes (c # cs) needle =
     (take (length needle) (c # cs) = needle \<or> stringIncludes cs needle)"

text \<open>
  \<open>parseInt\<close> of a decimal numeral with optional white space and sign in front; \<open>None\<close>
  is NaN. (A font weight is a keyword or a decimal number; the hexadecimal prefix that
  \<open>parseInt\<close> also reads is left out.)
\<close>

definition isDigit :: "char \<Rightarrow> bool" where
  "isDigit c = (48 \<le> (of_char c :: nat) \<and> (of_char c :: nat) \<le> 57)"

definition digitsValue :: "string \<Rightarrow> int" where
  "digitsValue ds = foldl (\<lambda>a c. 10 * a + (int (of_char c) - 48)) 0 ds"

definition parseInt :: "string \<Rightarrow> int option" where
  "parseInt s =
     (let t = dropWhile isSpace s;
          neg = (t \<noteq> [] \<and> hd t = CHR ''-'');
          u = (if t \<noteq> [] \<and> (hd t = CHR ''-'' \<or> hd t = CHR ''+'') then tl t else t);
          ds = takeWhile isDigit u
      in if ds = [] then None else Some (if neg then - digitsValue ds else digitsValue ds))"

definition toLowerCase :: "string \<Rightarrow> string" where
  "toLowerCase s =
     map (\<lambda>c. if 65 \<le> (of_char c :: nat) \<and> (of_char c :: nat) \<le> 90
             then char_of (of_char c + (32::nat)) else c) s"

text \<open>
  The \<open>href\<close> property of an anchor element, which is not its \<open>href\<close> attribute: the
  browser resolves the attribute against the base URL of the page and serializes the
  result (\<open>/x\<close> reads as \<open>https://host/x\<close>); without the attribute the property is the
  empty string. The browser's resolution is the parameter \<open>resolveURL\<close>.
\<close>

definition href :: "(string \<Rightarrow> string) \<Rightarrow> attrs \<Rightarrow> string" where
  "href resolveURL a =
     (if map_of a ''href'' = None then [] else resolveURL (getAttribute a ''href''))"

text \<open>A conditional statement \<open>if (c) { g }\<close> acting on the value built so far.\<close>

definition guarded :: "bool \<Rightarrow> ('a \<Rightarrow> 'a) \<Rightarrow> 'a \<Rightarrow> 'a" where
  "guarded c g x = (if c then g x else x)"

text \<open>
  The body of the first loop of \<open>getActiveFormats\<close> for one visited node: its
  conditional assignments, run in the order of the source.
\<close>

definition visitFormats :: "(string \<Rightarrow> string) \<Rightarrow> Node \<Rightarrow> formats \<Rightarrow> formats" where
  "visitFormats resolveURL n f =
     (case n of
        Text s \<Rightarrow> f
      | Element t a st cs \<Rightarrow>
          fold (\<lambda>statement. statement)
            [guarded (toLowerCase t = ''b'' \<or> toLowerCase t = ''strong''
                        \<or> getPropertyValue st ''font-weight'' = ''bold''
                        \<or> (case parseInt (getPropertyValue st ''font-weight'') of
                              None \<Rightarrow> False | Some w \<Rightarrow> w \<ge> 700))
               (\<lambda>g. g\<lparr>bold := True\<rparr>),
             guarded (toLowerCase t = ''i'' \<or> toLowerCase t = ''em''
                        \<or> getPropertyValue st ''font-style'' = ''italic'')
               (\<lambda>g. g\<lparr>italic := True\<rparr>),
             guarded (toLowerCase t = ''u''
                        \<or> stringIncludes (getPropertyValue st ''text-decoration'') ''underline'')
               (\<lambda>g. g\<lparr>underline := True\<rparr>),
             guarded (toLowerCase t = ''s'' \<or> toLowerCase t = ''strike''
                        \<or> stringIncludes (getPropertyValue st ''text-decoration'') ''line-through'')
               (\<lambda>g. g\<lparr>strike := True\<rparr>),
             guarded (toLowerCase t = ''a'')
               (\<lambda>g. g\<lparr>link := Some (href resolveURL a)\<rparr>),
             guarded (t \<in> set BLOCK_ELEMENTS)
               (\<lambda>g. g\<lparr>block := Some (toLowerCase t)\<rparr>),
             guarded (getPropertyValue st ''font-size'' \<noteq> [])
               (\<lambda>g. g\<lparr>fontSize := Some (getPropertyValue st ''font-size'')\<rparr>),
             guarded (getPropertyValue st ''font-family'' \<noteq> [])
               (\<lambda>g. g\<lparr>fontFamily := Some (getPropertyValue st ''font-family'')\<rparr>),
             guarded (getPropertyValue st ''color'' \<noteq> [])
               (\<lambda>g. g\<lparr>color := Some (getPropertyValue st ''color'')\<rparr>),
             guarded (getPropertyValue st ''background-color'' \<noteq> [])
               (\<lambda>g. g\<lparr>backgroundColor := Some (getPropertyValue st ''background-color'')\<rparr>)]
            f)"

text \<open>The body of the second loop (lists).\<close>

definition visitList :: "Node \<Rightarrow> formats \<Rightarrow> formats" where
  "visitList n f =
     (case n of
        Text s \<Rightarrow> f
      | Element t a st cs \<Rightarrow>
          fold (\<lambda>statement. statement)
            [guarded (t = ''UL'') (\<lambda>g. g\<lparr>unorderedList := True\<rparr>),
             guarded (t = ''OL'') (\<lambda>g. g\<lparr>orderedList := True\<rparr>)]
            f)"

definition getActiveFormats ::
  "(string \<Rightarrow> string) \<Rightarrow> Node list \<Rightarrow> dom_range option \<Rightarrow> formats" where
  "getActiveFormats resolveURL doc w =
     (case range' (getSelection doc w) of
        None \<Rightarrow> noFormats
      | Some r \<Rightarrow>
          (case startContainer (getSelection doc w) of
             None \<Rightarrow> noFormats
           | Some p \<Rightarrow>
               fold visitList (ancestorNodes doc p)
                 (fold (visitFormats resolveURL) (ancestorNodes doc p) noFormats)))"

section \<open>Command engine (src/hooks/useEditorCommands.ts)\<close>

text \<open>
  A command reads the clock (\<open>now\<close>) and the browser's selection (\<open>w\<close>) and acts on the
  editor: the document, which is the \<open>content\<close> of the history state, and the history
  stacks through \<open>saveHistory\<close>. The selection the browser holds afterwards is not part
  of the state.
\<close>

definition ALLOWED_TAGS :: "string list" where
  "ALLOWED_TAGS =
     [''P'', ''H1'', ''H2'', ''H3'', ''UL'', ''OL'', ''LI'', ''BLOCKQUOTE'', ''PRE'', ''A'',
      ''B'', ''STRONG'', ''I'', ''EM'', ''U'', ''S'', ''STRIKE'', ''SPAN'', ''BR'', ''IMG'',
      ''DIV'']"

text \<open>
  \<open>getCursorPosition()\<close> of the history hook on this tree: \<open>getNodePath\<close> of a
  container is its path from the editor root.
\<close>

definition getCursorPosition :: "dom_range option \<Rightarrow> cursor_position option" where
  "getCursorPosition w =
     (case w of
        None \<Rightarrow> None
      | Some r \<Rightarrow>
          Some \<lparr>startOffset = startOff r, endOffset = endOff r,
                startPath = startNode r, endPath = endNode r\<rparr>)"

text \<open>Replace the node at a non-empty path.\<close>

definition updateNodeAt :: "path \<Rightarrow> (Node \<Rightarrow> Node) \<Rightarrow> Node list \<Rightarrow> Node list" where
  "updateNodeAt p f doc =
     (if p = [] then doc
      else updateChildren (butlast p)
             (\<lambda>ns. if last p < length ns then ns[last p := f (ns ! last p)] else ns) doc)"

text \<open>
  \<open>Object.entries(style).forEach(([key, value]) => { if (value) el.style[key] = value })\<close>,
  the keys written as CSS property names. The value is stored as it is given; the
  browser stores its own serialization of it (\<open>#ff0000\<close> reads back as
  \<open>rgb(255, 0, 0)\<close>) and drops a value it cannot parse. Values here are taken to be
  in the browser's serialization already.
\<close>

definition applyStyle :: "css \<Rightarrow> css \<Rightarrow> css" where
  "applyStyle style st = fold (\<lambda>d acc. if snd d \<noteq> [] then setProperty (fst d) (snd d) acc else acc) style st"

definition styleElement :: "css \<Rightarrow> Node \<Rightarrow> Node" where
  "styleElement style n =
     (case n of Text s \<Rightarrow> Text s | Element t a st cs \<Rightarrow> Element t a (applyStyle style st) cs)"

subsection \<open>\<open>cleanupNestedSpans\<close>\<close>

text \<open>
  First loop, over the spans below the element in document order: a span whose parent is
  a span gives its style to the parent and is replaced by its children, which are then
  children of that parent. \<open>mergeInSpan\<close> treats the children of a span (together with
  that span's style so far), \<open>mergeInOther\<close> the children of any other element.
\<close>

fun mergeInSpan :: "Node list \<Rightarrow> css \<Rightarrow> Node list \<times> css"
  and mergeInOther :: "Node list \<Rightarrow> Node list" where
  "mergeInSpan [] ps = ([], ps)"
| "mergeInSpan (Text s # rest) ps =
     (Text s # fst (mergeInSpan rest ps), snd (mergeInSpan rest ps))"
| "mergeInSpan (Element t a st cs # rest) ps =
     (if t = ''SPAN'' then
        (fst (mergeInSpan cs (cssConcat ps st))
           @ fst (mergeInSpan rest (snd (mergeInSpan cs (cssConcat ps st)))),
         snd (mergeInSpan rest (snd (mergeInSpan cs (cssConcat ps st)))))
      else
        (Element t a st (mergeInOther cs) # fst (mergeInSpan rest ps),
         snd (mergeInSpan rest ps)))"
| "mergeInOther [] = []"
| "mergeInOther (Text s # rest) = Text s # mergeInOther rest"
| "mergeInOther (Element t a st cs # rest) =
     (if t = ''SPAN'' then
        Element t a (snd (mergeInSpan cs st)) (fst (mergeInSpan cs st)) # mergeInOther rest
      else Element t a st (mergeInOther cs) # mergeInOther rest)"

text \<open>\<open>querySelector('img')\<close> finds an image among the descendants.\<close>

fun containsImg :: "Node \<Rightarrow> bool" where
  "containsImg (Text s) = False"
| "containsImg (Element t a st cs) = (t = ''IMG'' \<or> list_ex containsImg cs)"

text \<open>
  Second loop: a span below the element with no text but white space and no image is
  removed (with all it contains).
\<close>

fun removeEmptySpans :: "Node list \<Rightarrow> Node list" where
  "removeEmptySpans [] = []"
| "removeEmptySpans (Text s # rest) = Text s # removeEmptySpans rest"
| "removeEmptySpans (Element t a st cs # rest) =
     (if t = ''SPAN'' \<and> trim (concat (map textContent cs)) = [] \<and> \<not> list_ex containsImg cs
      then removeEmptySpans rest
      else Element t a st (removeEmptySpans cs) # removeEmptySpans rest)"

definition cleanupNestedSpans :: "Node \<Rightarrow> Node" where
  "cleanupNestedSpans element =
     (case element of
        Text s \<Rightarrow> Text s
      | Element t a st cs \<Rightarrow>
          if t = ''SPAN''
          then Element t a (snd (mergeInSpan cs st)) (removeEmptySpans (fst (mergeInSpan cs st)))
          else Element t a st (removeEmptySpans (mergeInOther cs)))"

subsection \<open>Styling commands\<close>

definition wrapSelectionWithSpan ::
  "css \<Rightarrow> int \<Rightarrow> dom_range option \<Rightarrow> Node list history \<Rightarrow> Node list history" where
  "wrapSelectionWithSpan style now w s =
     (let sel = getSelection (content s) w in
      case range' sel of
        None \<Rightarrow> s
      | Some r \<Rightarrow>
          if isCollapsed sel then s
          else
            (let s1 = saveHistory now (getCursorPosition w) s;
                 target = findFontTarget (content s1) sel
             in case (if isFullBlock target then blockElement target else None) of
                  Some blk \<Rightarrow>
                    s1\<lparr>content := updateNodeAt blk (styleElement style) (content s1)\<rparr>
                | None \<Rightarrow>
                    (let ex = extractContents (content s1) r;
                         span = Element ''SPAN'' [] (applyStyle style []) (fst ex)
                     in s1\<lparr>content :=
                            insertNodes (fst (snd ex)) (snd (snd ex)) [cleanupNestedSpans span]\<rparr>)))"

definition setFontSize :: "string \<Rightarrow> int \<Rightarrow> dom_range option \<Rightarrow> Node list history \<Rightarrow> Node list history" where
  "setFontSize size' = wrapSelectionWithSpan [(''font-size'', size')]"

definition setFontFamily :: "string \<Rightarrow> int \<Rightarrow> dom_range option \<Rightarrow> Node list history \<Rightarrow> Node list history" where
  "setFontFamily family = wrapSelectionWithSpan [(''font-family'', family)]"

definition setTextColor :: "string \<Rightarrow> int \<Rightarrow> dom_range option \<Rightarrow> Node list history \<Rightarrow> Node list history" where
  "setTextColor c = wrapSelectionWithSpan [(''color'', c)]"

definition setBackgroundColor :: "string \<Rightarrow> int \<Rightarrow> dom_range option \<Rightarrow> Node list history \<Rightarrow> Node list history" where
  "setBackgroundColor c = wrapSelectionWithSpan [(''background-color'', c)]"

subsection \<open>\<open>toggleInlineStyle\<close>\<close>

datatype inlineTag = TagB | TagI | TagU | TagS

fun tagNameOf :: "inlineTag \<Rightarrow> string" where
  "tagNameOf TagB = ''B''"
| "tagNameOf TagI = ''I''"
| "tagNameOf TagU = ''U''"
| "tagNameOf TagS = ''S''"

definition matchesInline :: "inlineTag \<Rightarrow> Node \<Rightarrow> bool" where
  "matchesInline tagName n =
     (case n of
        Text s \<Rightarrow> False
      | Element tag a st cs \<Rightarrow>
          (tagName = TagB \<and> (tag = ''B'' \<or> tag = ''STRONG'')) \<or>
          (tagName = TagI \<and> (tag = ''I'' \<or> tag = ''EM'')) \<or>
          (tagName = TagU \<and> tag = ''U'') \<or>
          (tagName = TagS \<and> (tag = ''S'' \<or> tag = ''STRIKE'')))"

text \<open>Unwrap the element at a path: its children take its place.\<close>

definition unwrapAt :: "path \<Rightarrow> Node list \<Rightarrow> Node list" where
  "unwrapAt q doc =
     (if q = [] then doc
      else updateChildren (butlast q)
             (\<lambda>ns. if last q < length ns
                    then take (last q) ns @ childNodes (ns ! last q) @ drop (Suc (last q)) ns
                    else ns) doc)"

definition toggleInlineStyle ::
  "(string \<Rightarrow> string) \<Rightarrow> inlineTag \<Rightarrow> int \<Rightarrow> dom_range option \<Rightarrow> Node list history
     \<Rightarrow> Node list history" where
  "toggleInlineStyle resolveURL tagName now w s =
     (let sel = getSelection (content s) w in
      case range' sel of
        None \<Rightarrow> s
      | Some r \<Rightarrow>
          if isCollapsed sel then s
          else
            (let s1 = saveHistory now (getCursorPosition w) s;
                 fmts = getActiveFormats resolveURL (content s1) w;
                 isActive = ((tagName = TagB \<and> bold fmts) \<or> (tagName = TagI \<and> italic fmts) \<or>
                             (tagName = TagU \<and> underline fmts) \<or> (tagName = TagS \<and> strike fmts))
             in if isActive then
                  (case find (\<lambda>q. case nodeAt (content s1) q of
                                     None \<Rightarrow> False | Some n \<Rightarrow> matchesInline tagName n)
                          (inclusiveAncestors (startNode r)) of
                     None \<Rightarrow> s1
                   | Some q \<Rightarrow> s1\<lparr>content := unwrapAt q (content s1)\<rparr>)
                else
                  (let ex = extractContents (content s1) r;
                       wrapper = Element (tagNameOf tagName) [] [] (fst ex)
                   in s1\<lparr>content := insertNodes (fst (snd ex)) (snd (snd ex)) [wrapper]\<rparr>)))"

subsection \<open>Block, list, link and image commands\<close>

text \<open>\<open>parent.replaceChild(fragment, old)\<close>: the nodes take the place of the node at a path.\<close>

definition spliceAt :: "path \<Rightarrow> Node list \<Rightarrow> Node list \<Rightarrow> Node list" where
  "spliceAt q new doc =
     (if q = [] then doc
      else updateChildren (butlast q)
             (\<lambda>ns. if last q < length ns then take (last q) ns @ new @ drop (Suc (last q)) ns
                    else ns) doc)"

text \<open>
  A new element of another kind with the \<open>innerHTML\<close> of the old one, and its
  \<open>style.cssText\<close> when \<open>keepStyle\<close> is set; no other attribute is copied.
\<close>

definition retag :: "string \<Rightarrow> bool \<Rightarrow> Node \<Rightarrow> Node" where
  "retag tagName keepStyle n =
     (case n of
        Text s \<Rightarrow> Text s
      | Element t a st cs \<Rightarrow> Element tagName [] (if keepStyle then st else []) cs)"

definition setBlockType ::
  "string \<Rightarrow> int \<Rightarrow> dom_range option \<Rightarrow> Node list history \<Rightarrow> Node list history" where
  "setBlockType tagName now w s =
     (let sel = getSelection (content s) w in
      case range' sel of
        None \<Rightarrow> s
      | Some r \<Rightarrow>
          (let s1 = saveHistory now (getCursorPosition w) s in
           case findBlockParent (content s1) (startContainer sel) of
             None \<Rightarrow>
               s1\<lparr>content :=
                    insertNodes (content s1) (startNode r, startOff r)
                      [Element tagName [] [] [Element ''BR'' [] [] []]]\<rparr>
           | Some blk \<Rightarrow>
               s1\<lparr>content := updateNodeAt blk (retag tagName True) (content s1)\<rparr>))"

text \<open>
  \<open>toggleList\<close>. In its last branch the selected text is assigned to \<open>li.innerHTML\<close>,
  so it is read as markup: \<open>parseHTML\<close> stands for the browser's parser there. In its
  first branch \<open>listItem.parentElement\<close> is the editor root when the item is a child
  of the root; the root is then replaced in the page and keeps its own children.
\<close>

definition toggleList ::
  "(string \<Rightarrow> string) \<Rightarrow> (string \<Rightarrow> Node list) \<Rightarrow> string \<Rightarrow> int \<Rightarrow> dom_range option
     \<Rightarrow> Node list history \<Rightarrow> Node list history" where
  "toggleList resolveURL parseHTML listType now w s =
     (let sel = getSelection (content s) w in
      case range' sel of
        None \<Rightarrow> s
      | Some r \<Rightarrow>
          (let s1 = saveHistory now (getCursorPosition w) s;
               fmts = getActiveFormats resolveURL (content s1) w;
               currentListType = (if unorderedList fmts then Some ''UL''
                                  else if orderedList fmts then Some ''OL'' else None)
           in if currentListType = Some listType then
                (case findBlockParent (content s1) (startContainer sel) of
                   None \<Rightarrow> s1
                 | Some q \<Rightarrow>
                     (case nodeAt (content s1) q of
                        None \<Rightarrow> s1
                      | Some listItem \<Rightarrow>
                          if hasTag ''LI'' listItem \<and> length q > 1 then
                            s1\<lparr>content :=
                                 spliceAt (butlast q)
                                   (map (\<lambda>item. Element ''P'' [] [] (childNodes item))
                                      (filter isElement (childrenAt (content s1) (butlast q))))
                                   (content s1)\<rparr>
                          else s1))
              else if currentListType \<noteq> None then
                (case find (\<lambda>q. case nodeAt (content s1) q of
                                   None \<Rightarrow> False
                                 | Some n \<Rightarrow> hasTag ''UL'' n \<or> hasTag ''OL'' n)
                        (inclusiveAncestors (startNode r)) of
                   None \<Rightarrow> s1
                 | Some q \<Rightarrow> s1\<lparr>content := updateNodeAt q (retag listType False) (content s1)\<rparr>)
              else
                (case findBlockParent (content s1) (startContainer sel) of
                   Some blk \<Rightarrow>
                     s1\<lparr>content :=
                          updateNodeAt blk
                            (\<lambda>n. Element listType [] [] [Element ''LI'' [] [] (childNodes n)])
                            (content s1)\<rparr>
                 | None \<Rightarrow>
                     (let selected = rangeToString (content s1) r;
                          li = Element ''LI'' [] []
                                 (if selected \<noteq> [] then parseHTML selected
                                  else [Element ''BR'' [] [] []]);
                          del = deleteContents (content s1) r
                      in s1\<lparr>content :=
                              insertNodes (fst del) (snd del) [Element listType [] [] [li]]\<rparr>))))"

text \<open>\<open>link.textContent = text\<close> gives the link one text node, none for the empty text.\<close>

definition insertLink ::
  "string \<Rightarrow> int \<Rightarrow> dom_range option \<Rightarrow> Node list history \<Rightarrow> Node list history" where
  "insertLink url now w s =
     (let sel = getSelection (content s) w in
      case range' sel of
        None \<Rightarrow> s
      | Some r \<Rightarrow>
          (let s1 = saveHistory now (getCursorPosition w) s;
               linkText = (if isCollapsed sel then url else rangeToString (content s1) r);
               del = (if isCollapsed sel then (content s1, startNode r, startOff r)
                      else deleteContents (content s1) r);
               linkNode = Element ''A''
                            [(''href'', url), (''target'', ''_blank''),
                             (''rel'', ''noopener noreferrer'')] []
                            (if linkText = [] then [] else [Text linkText])
           in s1\<lparr>content := insertNodes (fst del) (snd del) [linkNode]\<rparr>))"

definition removeLink :: "int \<Rightarrow> dom_range option \<Rightarrow> Node list history \<Rightarrow> Node list history" where
  "removeLink now w s =
     (let sel = getSelection (content s) w in
      case range' sel of
        None \<Rightarrow> s
      | Some r \<Rightarrow>
          (let s1 = saveHistory now (getCursorPosition w) s in
           case find (\<lambda>q. case nodeAt (content s1) q of None \<Rightarrow> False | Some n \<Rightarrow> hasTag ''A'' n)
                  (inclusiveAncestors (startNode r)) of
             None \<Rightarrow> s1
           | Some q \<Rightarrow>
               s1\<lparr>content := updateNodeAt q (\<lambda>n. Text (textContent n)) (content s1)\<rparr>))"

definition insertImage ::
  "string \<Rightarrow> string \<Rightarrow> int \<Rightarrow> dom_range option \<Rightarrow> Node list history \<Rightarrow> Node list history" where
  "insertImage src alt now w s =
     (let sel = getSelection (content s) w in
      case range' sel of
        None \<Rightarrow> s
      | Some r \<Rightarrow>
          (let s1 = saveHistory now (getCursorPosition w) s;
               img = Element ''IMG''
                       [(''src'', src), (''alt'', alt),
                        (''class'', ''max-w-full h-auto rounded-lg my-4''),
                        (''data-editor-image'', ''true'')] [] [];
               p = Element ''P'' [] [] [img]
           in s1\<lparr>content := insertNodes (content s1) (startNode r, startOff r) [p]\<rparr>))"

subsection \<open>Sanitization and paste\<close>

definition allowedStyles :: "string list" where
  "allowedStyles =
     [''color'', ''background-color'', ''background'',
      ''font-size'', ''font-family'', ''font-weight'', ''font-style'',
      ''text-decoration'', ''text-decoration-line'', ''text-decoration-color'',
      ''text-decoration-style'',
      ''text-align'', ''text-indent'', ''text-transform'',
      ''line-height'', ''letter-spacing'', ''word-spacing'',
      ''margin'', ''margin-top'', ''margin-right'', ''margin-bottom'', ''margin-left'',
      ''padding'', ''padding-top'', ''padding-right'', ''padding-bottom'', ''padding-left'',
      ''border'', ''border-radius'',
      ''width'', ''height'', ''max-width'', ''max-height'',
      ''display'', ''vertical-align'']"

definition blockTags :: "string list" where
  "blockTags =
     [''DIV'', ''SECTION'', ''ARTICLE'', ''HEADER'', ''FOOTER'', ''MAIN'', ''NAV'', ''ASIDE'']"

definition allowedAttrs :: "string list" where
  "allowedAttrs =
     [''href'', ''src'', ''alt'', ''style'', ''class'', ''target'', ''rel'',
      ''data-editor-image'']"

text \<open>
  The style of an element that is kept: the allowed properties that are set, written
  back in the order of \<open>allowedStyles\<close>; \<open>text-align\<close> is then stored once more.
\<close>

definition sanitizeStyle :: "css \<Rightarrow> css" where
  "sanitizeStyle st =
     (if st = [] then []
      else
        (let styleObj = map (\<lambda>prop. (prop, getPropertyValue st prop))
                          (filter (\<lambda>prop. getPropertyValue st prop \<noteq> []) allowedStyles);
             computedAlign = getPropertyValue st ''text-align''
         in if computedAlign \<noteq> [] then setProperty ''text-align'' computedAlign styleObj
            else styleObj))"

text \<open>
  The inner \<open>sanitize(node)\<close>, on the children of \<open>node\<close>. An element that is replaced
  gets a new \<open>p\<close> or \<open>span\<close> with the same children and the whole \<open>style.cssText\<close> of
  the old one; the recursive call then treats the children of the replacement. The
  \<open>style\<close> attribute is in \<open>allowedAttrs\<close>, so an element that is kept keeps its style
  as \<open>sanitizeStyle\<close> leaves it.

  The source hands the children over as markup (\<open>p.innerHTML = el.innerHTML\<close>) and
  returns \<open>doc.body.innerHTML\<close>. The children are copied as a tree here, which is the
  same for markup that parses back to the tree it was written from. It is not the same
  where the parser repairs the markup, as for table content outside a table or a
  paragraph inside a paragraph: on such input the source's result differs from the tree
  computed here.
\<close>

fun sanitize :: "Node list \<Rightarrow> Node list" where
  "sanitize [] = []"
| "sanitize (Text s # rest) = Text s # sanitize rest"
| "sanitize (Element t a st cs # rest) =
     (if t \<notin> set ALLOWED_TAGS then
        (if t \<in> set blockTags then Element ''P'' [] st (sanitize cs)
         else Element ''SPAN'' [] st (sanitize cs))
      else Element t (filter (\<lambda>attr. fst attr \<in> set allowedAttrs) a) (sanitizeStyle st) (sanitize cs))
     # sanitize rest"

text \<open>\<open>sanitizeHTML\<close> on the parsed markup: the children of \<open>doc.body\<close> in, and out.\<close>

definition sanitizeHTML :: "Node list \<Rightarrow> Node list" where
  "sanitizeHTML body = sanitize body"

text \<open>
  The clipboard of a paste event: the \<open>text/html\<close> payload, parsed (\<open>None\<close> when it is
  missing or empty), and the \<open>text/plain\<close> payload. \<open>handlePaste\<close> parses the
  sanitized string once more (\<open>temp.innerHTML = sanitizedHtml\<close>) before it inserts the
  nodes; the sanitized tree is inserted as it is here, under the same reading of markup
  as for \<open>sanitize\<close>.
\<close>

record clipboard =
  textHtml :: "Node list option"
  textPlain :: string

definition handlePaste ::
  "clipboard \<Rightarrow> int \<Rightarrow> dom_range option \<Rightarrow> Node list history \<Rightarrow> Node list history" where
  "handlePaste e now w s =
     (let s1 = saveHistory now (getCursorPosition w) s in
      case w of
        None \<Rightarrow> s1
      | Some r \<Rightarrow>
          (let del = deleteContents (content s1) r in
           case textHtml e of
             Some markup \<Rightarrow>
               s1\<lparr>content := insertNodes (fst del) (snd del) (sanitizeHTML markup)\<rparr>
           | None \<Rightarrow>
               if textPlain e \<noteq> []
               then s1\<lparr>content := insertNodes (fst del) (snd del) [Text (textPlain e)]\<rparr>
               else s1\<lparr>content := fst del\<rparr>))"

section \<open>Image resize\<close>

text \<open>
  Lengths and pointer coordinates are real numbers here (the program computes in IEEE
  doubles); rendered sizes are positive, so no aspect ratio is a division by zero.
\<close>

subsection \<open>The editor's own handles (src/components/editor/RichTextEditor.tsx)\<close>

text \<open>
  The selected image is given by its rendered width and height, which the handlers read
  with \<open>getBoundingClientRect\<close> and write through \<open>style.width\<close> and \<open>style.height\<close>.
\<close>

record resizeStartData =
  startX :: real
  startY :: real
  startWidth :: real
  startHeight :: real
  startAspectRatio :: real

record resizeState =
  selectedImage :: "(real \<times> real) option"
  isResizing :: bool
  resizeStart :: "resizeStartData option"

definition handleResizeMouseDown :: "real \<Rightarrow> real \<Rightarrow> string \<Rightarrow> resizeState \<Rightarrow> resizeState" where
  "handleResizeMouseDown clientX clientY corner st =
     (case selectedImage st of
        None \<Rightarrow> st
      | Some rect \<Rightarrow>
          st\<lparr>isResizing := True,
             resizeStart := Some \<lparr>startX = clientX, startY = clientY, startWidth = fst rect,
                                  startHeight = snd rect,
                                  startAspectRatio = fst rect / snd rect\<rparr>\<rparr>)"

text \<open>
  The handler returns at once unless a drag is active, an image is selected and the start
  data are there. The corner that \<open>handleResizeMouseDown\<close> receives is not stored, so
  the move has only the pointer position to go by.
\<close>

definition handleResizeMouseMove :: "real \<Rightarrow> resizeState \<Rightarrow> resizeState" where
  "handleResizeMouseMove clientX st =
     (case resizeStart st of
        None \<Rightarrow> st
      | Some d \<Rightarrow>
          if isResizing st \<and> selectedImage st \<noteq> None then
            (let deltaX = clientX - startX d;
                 newWidth = max 50 (min 800 (startWidth d + deltaX));
                 newHeight = newWidth / startAspectRatio d
             in st\<lparr>selectedImage := Some (newWidth, newHeight)\<rparr>)
          else st)"

subsection \<open>The wrapper component (src/components/editor/ImageResizeWrapper.tsx)\<close>

record wrapperState =
  dimensions :: "real \<times> real"
  wrapperResizing :: bool
  aspectRatio :: real
  startPos :: "real \<times> real"
  startDimensions :: "real \<times> real"
  resizeCorner :: string

text \<open>\<open>offset\<close> is the rendered size of the image (\<open>offsetWidth\<close>, \<open>offsetHeight\<close>).\<close>

definition handleMouseDown :: "real \<Rightarrow> real \<Rightarrow> string \<Rightarrow> real \<times> real \<Rightarrow> wrapperState \<Rightarrow> wrapperState" where
  "handleMouseDown clientX clientY corner offset st =
     st\<lparr>wrapperResizing := True, resizeCorner := corner, startPos := (clientX, clientY),
        startDimensions := offset\<rparr>"

text \<open>
  The width follows the corner; the height is computed from the width before the clamp,
  clamped, and then computed again from the clamped width, which is the value kept.
\<close>

definition handleMouseMove :: "real \<Rightarrow> wrapperState \<Rightarrow> wrapperState" where
  "handleMouseMove clientX st =
     (if \<not> wrapperResizing st then st
      else
        (let deltaX = clientX - fst (startPos st);
             corner = resizeCorner st;
             newWidth0 = (if stringIncludes corner ''right'' then fst (startDimensions st) + deltaX
                          else if stringIncludes corner ''left'' then fst (startDimensions st) - deltaX
                          else fst (startDimensions st));
             newWidth1 = max 50 newWidth0;
             newWidth = min 800 newWidth1;
             newHeight = newWidth / aspectRatio st
         in st\<lparr>dimensions := (newWidth, newHeight)\<rparr>))"

section \<open>Vocabulary of the properties\<close>

subsection \<open>History\<close>











subsection \<open>Active formats\<close>

text \<open>
  What a single node defines for each scalar attribute, read off the node itself. An
  anchor (\<open>tagName\<close> \<open>A\<close>; \<open>a\<close> for an element outside the HTML namespace) defines the
  link target: the URL its \<open>href\<close> attribute resolves to, the empty string without the
  attribute. An element with one of the seven block tags defines the block kind, its tag
  in lower case. An element whose inline style declares a property with a non-empty value
  defines that property. A text node defines nothing.
\<close>

definition anchorTarget :: "(string \<Rightarrow> string) \<Rightarrow> Node \<Rightarrow> string option" where
  "anchorTarget resolveURL n =
     (case n of
        Text s \<Rightarrow> None
      | Element t a st cs \<Rightarrow>
          if t = ''A'' \<or> t = ''a''
          then Some (case map_of a ''href'' of None \<Rightarrow> [] | Some v \<Rightarrow> resolveURL v)
          else None)"

definition blockKind :: "Node \<Rightarrow> string option" where
  "blockKind n =
     (case n of
        Text s \<Rightarrow> None
      | Element t a st cs \<Rightarrow>
          map_of [(''H1'', ''h1''), (''H2'', ''h2''), (''H3'', ''h3''), (''P'', ''p''),
                  (''LI'', ''li''), (''BLOCKQUOTE'', ''blockquote''), (''PRE'', ''pre'')] t)"

definition styleValue :: "string \<Rightarrow> Node \<Rightarrow> string option" where
  "styleValue p n =
     (case n of
        Text s \<Rightarrow> None
      | Element t a st cs \<Rightarrow>
          (case map_of st p of None \<Rightarrow> None | Some v \<Rightarrow> if v = [] then None else Some v))"

text \<open>
  The outermost definer on a path. The inclusive ancestors of the node at path \<open>p\<close> are
  the nodes at the prefixes of \<open>p\<close>: the prefix of length 1 is the child of the editor
  root, the prefix of length \<open>length p\<close> the node itself. \<open>definedAtDepth d doc p k\<close> is
  what the node at the prefix of length \<open>k\<close> defines, and \<open>outermostOnPath d doc p\<close> the
  value at the least depth at which something is defined; none when nothing is.
\<close>

fun firstDefined :: "(nat \<Rightarrow> string option) \<Rightarrow> nat list \<Rightarrow> string option" where
  "firstDefined f [] = None"
| "firstDefined f (k # ks) = (case f k of None \<Rightarrow> firstDefined f ks | Some v \<Rightarrow> Some v)"

definition definedAtDepth ::
  "(Node \<Rightarrow> string option) \<Rightarrow> Node list \<Rightarrow> path \<Rightarrow> nat \<Rightarrow> string option" where
  "definedAtDepth d doc p k = (case nodeAt doc (take k p) of None \<Rightarrow> None | Some n \<Rightarrow> d n)"

definition outermostOnPath ::
  "(Node \<Rightarrow> string option) \<Rightarrow> Node list \<Rightarrow> path \<Rightarrow> string option" where
  "outermostOnPath d doc p = firstDefined (definedAtDepth d doc p) [1..<Suc (length p)]"

text \<open>
  What a loop of conditional assignments over a list of nodes leaves in a variable: the
  value defined by the last node of the list that defines one.
\<close>

definition lastAssigned :: "(Node \<Rightarrow> string option) \<Rightarrow> Node list \<Rightarrow> string option" where
  "lastAssigned d walk =
     (case filter (\<lambda>n. d n \<noteq> None) walk of [] \<Rightarrow> None | x # xs \<Rightarrow> d (last (x # xs)))"

text \<open>
  \<open><blockquote style="color: red; font-size: 12px"><p style="color: blue"><a href="/x"
  style="color: green; font-size: 20px">Hi</a></p></blockquote>\<close>: three nested elements
  that define the text color, two the font size, two the block kind.
\<close>

definition nestedColors :: "Node list" where
  "nestedColors =
     [Element ''BLOCKQUOTE'' [] [(''color'', ''red''), (''font-size'', ''12px'')]
        [Element ''P'' [] [(''color'', ''blue'')]
           [Element ''A'' [(''href'', ''/x'')] [(''color'', ''green''), (''font-size'', ''20px'')]
              [Text ''Hi'']]]]"

subsection \<open>Spans\<close>

text \<open>
  No span in the subtree has a span as a direct child; every span in the subtree has
  text other than white space, or an image, below it.
\<close>

fun noSpanInSpan :: "Node \<Rightarrow> bool" where
  "noSpanInSpan (Text s) = True"
| "noSpanInSpan (Element t a st cs) =
     ((if t = ''SPAN'' then \<not> list_ex (hasTag ''SPAN'') cs else True) \<and> list_all noSpanInSpan cs)"

fun noEmptySpan :: "Node \<Rightarrow> bool" where
  "noEmptySpan (Text s) = True"
| "noEmptySpan (Element t a st cs) =
     ((if t = ''SPAN'' then trim (concat (map textContent cs)) \<noteq> [] \<or> list_ex containsImg cs
       else True) \<and> list_all noEmptySpan cs)"

subsection \<open>Sanitized trees\<close>

fun onlyAllowedTagsAndAttrs :: "Node \<Rightarrow> bool" where
  "onlyAllowedTagsAndAttrs (Text s) = True"
| "onlyAllowedTagsAndAttrs (Element t a st cs) =
     (t \<in> set ALLOWED_TAGS \<and> list_all (\<lambda>attr. fst attr \<in> set allowedAttrs) a \<and>
      list_all onlyAllowedTagsAndAttrs cs)"

fun onlyAllowedStyles :: "Node \<Rightarrow> bool" where
  "onlyAllowedStyles (Text s) = True"
| "onlyAllowedStyles (Element t a st cs) =
     (list_all (\<lambda>d. fst d \<in> set allowedStyles) st \<and> list_all onlyAllowedStyles cs)"

text \<open>No element of the subtree has a tag outside \<open>ALLOWED_TAGS\<close>.\<close>

fun nothingToReplace :: "Node \<Rightarrow> bool" where
  "nothingToReplace (Text s) = True"
| "nothingToReplace (Element t a st cs) = (t \<in> set ALLOWED_TAGS \<and> list_all nothingToReplace cs)"

section \<open>Properties of the history manager\<close>





































section \<open>Properties of sanitization\<close>

text \<open>
  What the pipeline does guarantee: allowed tags and attributes everywhere; allowed style
  properties on every element that is kept, hence everywhere when no element is replaced;
  and a second pass changes nothing when the first one replaced nothing.
\<close>

lemma sanitize_tags_and_attrs: "list_all onlyAllowedTagsAndAttrs (sanitize ns)"
proof (induction ns rule: sanitize.induct)
  case 1
  show ?case by simp
next
  case (2 s rest)
  then show ?case by simp
next
  case (3 t a st cs rest)
  have "''P'' \<in> set ALLOWED_TAGS" "''SPAN'' \<in> set ALLOWED_TAGS"
    by (simp_all add: ALLOWED_TAGS_def)
  with 3 show ?case by (simp add: list_all_iff)
qed

lemma distinct_allowedStyles: "distinct allowedStyles"
  by (simp add: allowedStyles_def)

lemma map_of_tabulate:
  "map_of (map (\<lambda>p. (p, f p)) xs) p = (if p \<in> set xs then Some (f p) else None)"
  by (induction xs) auto

lemma setProperty_same:
  "(k, v) \<in> set st \<Longrightarrow> distinct (map fst st) \<Longrightarrow> setProperty k v st = st"
  by (induction st) (auto simp: rev_image_eqI)

lemma sanitizeStyle_eq:
  "sanitizeStyle st =
     map (\<lambda>p. (p, getPropertyValue st p)) (filter (\<lambda>p. getPropertyValue st p \<noteq> []) allowedStyles)"
proof (cases "st = []")
  case True
  then show ?thesis by (simp add: sanitizeStyle_def getPropertyValue_def)
next
  case False
  let ?obj = "map (\<lambda>p. (p, getPropertyValue st p))
                (filter (\<lambda>p. getPropertyValue st p \<noteq> []) allowedStyles)"
  have keys: "map fst ?obj = filter (\<lambda>p. getPropertyValue st p \<noteq> []) allowedStyles"
    by (simp add: comp_def)
  have d: "distinct (map fst ?obj)"
    unfolding keys using distinct_allowedStyles by (rule distinct_filter)
  have ta: "''text-align'' \<in> set allowedStyles" by (simp add: allowedStyles_def)
  have "setProperty ''text-align'' (getPropertyValue st ''text-align'') ?obj = ?obj"
    if "getPropertyValue st ''text-align'' \<noteq> []"
  proof (rule setProperty_same [OF _ d])
    from that ta show "(''text-align'', getPropertyValue st ''text-align'') \<in> set ?obj"
      by (auto simp: image_iff)
  qed
  with False show ?thesis by (simp add: sanitizeStyle_def Let_def)
qed

lemma sanitizeStyle_allowed: "list_all (\<lambda>d. fst d \<in> set allowedStyles) (sanitizeStyle st)"
  by (simp add: sanitizeStyle_eq list_all_iff)

lemma getPropertyValue_sanitizeStyle:
  "getPropertyValue (sanitizeStyle st) p =
     (if p \<in> set allowedStyles then getPropertyValue st p else [])"
  by (simp add: sanitizeStyle_eq getPropertyValue_def [of "map f xs" for f xs] map_of_tabulate)

lemma sanitizeStyle_idem: "sanitizeStyle (sanitizeStyle st) = sanitizeStyle st"
proof -
  have "sanitizeStyle (sanitizeStyle st) =
      map (\<lambda>p. (p, getPropertyValue (sanitizeStyle st) p))
        (filter (\<lambda>p. getPropertyValue (sanitizeStyle st) p \<noteq> []) allowedStyles)"
    by (rule sanitizeStyle_eq)
  also have "filter (\<lambda>p. getPropertyValue (sanitizeStyle st) p \<noteq> []) allowedStyles
      = filter (\<lambda>p. getPropertyValue st p \<noteq> []) allowedStyles"
    by (rule filter_cong) (simp_all add: getPropertyValue_sanitizeStyle)
  also have "map (\<lambda>p. (p, getPropertyValue (sanitizeStyle st) p))
        (filter (\<lambda>p. getPropertyValue st p \<noteq> []) allowedStyles)
      = map (\<lambda>p. (p, getPropertyValue st p))
        (filter (\<lambda>p. getPropertyValue st p \<noteq> []) allowedStyles)"
    by (rule map_cong) (simp_all add: getPropertyValue_sanitizeStyle)
  also have "\<dots> = sanitizeStyle st" by (rule sanitizeStyle_eq [symmetric])
  finally show ?thesis .
qed

lemma sanitize_styles_when_nothing_replaced:
  "list_all nothingToReplace ns \<Longrightarrow> list_all onlyAllowedStyles (sanitize ns)"
  by (induction ns rule: sanitize.induct) (simp_all add: sanitizeStyle_allowed)

lemma sanitize_nothingToReplace: "list_all nothingToReplace (sanitize ns)"
proof (induction ns rule: sanitize.induct)
  case (3 t a st cs rest)
  have "''P'' \<in> set ALLOWED_TAGS" "''SPAN'' \<in> set ALLOWED_TAGS"
    by (simp_all add: ALLOWED_TAGS_def)
  with 3 show ?case by simp
qed simp_all

lemma sanitize_idempotent_when_nothing_replaced:
  "list_all nothingToReplace ns \<Longrightarrow> sanitize (sanitize ns) = sanitize ns"
  by (induction ns rule: sanitize.induct) (simp_all add: sanitizeStyle_idem)

text \<open>
  Claim C3 at a \<open>section\<close> element with \<open>position: fixed\<close>: the replacing paragraph
  carries the style as it was, a property outside \<open>allowedStyles\<close>.
\<close>

theorem sanitize_keeps_style_of_replaced_element:
  "sanitizeHTML [Element ''SECTION'' [] [(''position'', ''fixed'')] [Text ''x'']]
     = [Element ''P'' [] [(''position'', ''fixed'')] [Text ''x'']]
   \<and> ''position'' \<notin> set allowedStyles
   \<and> \<not> list_all onlyAllowedStyles
         (sanitizeHTML [Element ''SECTION'' [] [(''position'', ''fixed'')] [Text ''x'']])"
  by (simp add: sanitizeHTML_def ALLOWED_TAGS_def blockTags_def allowedStyles_def)

text \<open>
  Claim C5 at an \<open>article\<close> element with \<open>position: fixed; color: red\<close>: the first pass
  keeps both declarations on the replacing paragraph, the second pass removes
  \<open>position\<close>.
\<close>

theorem sanitize_twice_differs:
  "sanitizeHTML [Element ''ARTICLE'' [] [(''position'', ''fixed''), (''color'', ''red'')] [Text ''x'']]
     = [Element ''P'' [] [(''position'', ''fixed''), (''color'', ''red'')] [Text ''x'']]
   \<and> sanitizeHTML (sanitizeHTML
        [Element ''ARTICLE'' [] [(''position'', ''fixed''), (''color'', ''red'')] [Text ''x'']])
     = [Element ''P'' [] [(''color'', ''red'')] [Text ''x'']]"
  by (simp add: sanitizeHTML_def ALLOWED_TAGS_def blockTags_def allowedStyles_def
      sanitizeStyle_def getPropertyValue_def allowedAttrs_def)

text \<open>
  Claim C6 at \<open><div style="color:red">Hi</div>\<close>: \<open>DIV\<close> is in \<open>ALLOWED_TAGS\<close>, so
  the element is kept as a \<open>div\<close> and the branch that turns block tags into paragraphs
  is never reached for it.
\<close>

theorem sanitize_div_stays_div:
  "sanitizeHTML [Element ''DIV'' [] [(''color'', ''red'')] [Text ''Hi'']]
     = [Element ''DIV'' [] [(''color'', ''red'')] [Text ''Hi'']]
   \<and> sanitizeHTML [Element ''DIV'' [] [(''color'', ''red'')] [Text ''Hi'']]
     \<noteq> [Element ''P'' [] [(''color'', ''red'')] [Text ''Hi'']]"
  by (simp add: sanitizeHTML_def ALLOWED_TAGS_def blockTags_def allowedStyles_def
      sanitizeStyle_def getPropertyValue_def allowedAttrs_def)

section \<open>Properties of the selection resolver\<close>

lemma lastAssigned_Nil: "lastAssigned d [] = None"
  by (simp add: lastAssigned_def)

lemma lastAssigned_Cons:
  "lastAssigned d (n # ns) =
     (case lastAssigned d ns of None \<Rightarrow> d n | Some v \<Rightarrow> Some v)"
proof (cases "filter (\<lambda>n. d n \<noteq> None) ns")
  case Nil
  then show ?thesis by (auto simp: lastAssigned_def)
next
  case (Cons x xs)
  then have "last (x # xs) \<in> set (filter (\<lambda>n. d n \<noteq> None) ns)"
    by (metis last_in_set list.distinct(1))
  then have "d (last (x # xs)) \<noteq> None" by simp
  with Cons show ?thesis by (auto simp: lastAssigned_def)
qed

lemma lastAssigned_snoc:
  "lastAssigned d (ns @ [n]) = (case d n of None \<Rightarrow> lastAssigned d ns | Some v \<Rightarrow> Some v)"
  by (induction ns) (simp_all add: lastAssigned_Nil lastAssigned_Cons split: option.splits)

lemma inclusiveAncestors_not_Nil: "p \<noteq> [] \<Longrightarrow> inclusiveAncestors p = p # inclusiveAncestors (butlast p)"
  by (cases p) simp_all

lemma inclusiveAncestors_snoc: "inclusiveAncestors (p @ [i]) = (p @ [i]) # inclusiveAncestors p"
  by (simp add: inclusiveAncestors_not_Nil)

lemma inclusiveAncestors_prefixes:
  "inclusiveAncestors p = map (\<lambda>k. take k p) (rev [1..<Suc (length p)])"
proof (induction p rule: rev_induct)
  case Nil
  show ?case by simp
next
  case (snoc i p)
  have "map (\<lambda>k. take k (p @ [i])) (rev [1..<Suc (length p)])
          = map (\<lambda>k. take k p) (rev [1..<Suc (length p)])"
    by (rule map_cong) auto
  with snoc show ?case by (simp add: inclusiveAncestors_snoc)
qed

lemma lastAssigned_map_filter_rev:
  "lastAssigned d (List.map_filter g (rev ks))
     = firstDefined (\<lambda>k. case g k of None \<Rightarrow> None | Some n \<Rightarrow> d n) ks"
proof (induction ks)
  case Nil
  show ?case by (simp add: List.map_filter_def lastAssigned_Nil)
next
  case (Cons k ks)
  have "List.map_filter g (rev (k # ks))
          = List.map_filter g (rev ks) @ (case g k of None \<Rightarrow> [] | Some n \<Rightarrow> [n])"
    by (simp add: List.map_filter_def split: option.splits)
  with Cons show ?case
    by (cases "g k") (simp_all add: lastAssigned_snoc split: option.splits)
qed

lemma lastAssigned_ancestorNodes:
  "lastAssigned d (ancestorNodes doc p) = outermostOnPath d doc p"
proof -
  have "ancestorNodes doc p
          = List.map_filter (\<lambda>k. nodeAt doc (take k p)) (rev [1..<Suc (length p)])"
    by (simp add: ancestorNodes_def inclusiveAncestors_prefixes List.map_filter_def
        filter_map comp_def)
  moreover have "definedAtDepth d doc p
          = (\<lambda>k. case nodeAt doc (take k p) of None \<Rightarrow> None | Some n \<Rightarrow> d n)"
    by (rule ext) (simp add: definedAtDepth_def)
  ultimately show ?thesis
    by (simp only: lastAssigned_map_filter_rev outermostOnPath_def)
qed

lemma toLowerCase_values:
  "toLowerCase ''A'' = ''a''" "toLowerCase ''a'' = ''a''"
  "toLowerCase ''H1'' = ''h1''" "toLowerCase ''H2'' = ''h2''" "toLowerCase ''H3'' = ''h3''"
  "toLowerCase ''P'' = ''p''" "toLowerCase ''LI'' = ''li''"
  "toLowerCase ''BLOCKQUOTE'' = ''blockquote''" "toLowerCase ''PRE'' = ''pre''"
  by code_simp+

lemma toLowerCase_is_a: "toLowerCase t = ''a'' \<longleftrightarrow> t = ''A'' \<or> t = ''a''"
proof
  assume l: "toLowerCase t = ''a''"
  then obtain c where t: "t = [c]" by (cases t) (auto simp: toLowerCase_def)
  show "t = ''A'' \<or> t = ''a''"
  proof (cases "65 \<le> (of_char c :: nat) \<and> (of_char c :: nat) \<le> 90")
    case True
    with l t have "char_of (of_char c + (32::nat)) = CHR ''a''" by (simp add: toLowerCase_def)
    then have "(of_char (char_of (of_char c + (32::nat)) :: char) :: nat) = of_char CHR ''a''"
      by simp
    with True have "(of_char c :: nat) = of_char CHR ''A''" by simp
    then have "c = CHR ''A''" by (simp only: of_char_eq_iff)
    with t show ?thesis by simp
  next
    case False
    with l t show ?thesis by (auto simp: toLowerCase_def)
  qed
next
  assume "t = ''A'' \<or> t = ''a''"
  then show "toLowerCase t = ''a''" by (auto simp: toLowerCase_values)
qed

lemma href_map_of:
  "href resolveURL a = (case map_of a ''href'' of None \<Rightarrow> [] | Some v \<Rightarrow> resolveURL v)"
  by (simp add: href_def getAttribute_def split: option.splits)

lemma blockKind_BLOCK_ELEMENTS:
  "blockKind (Element t a st cs) = (if t \<in> set BLOCK_ELEMENTS then Some (toLowerCase t) else None)"
  by (auto simp: blockKind_def BLOCK_ELEMENTS_def toLowerCase_values)

lemma styleValue_getPropertyValue:
  "styleValue p (Element t a st cs)
     = (if getPropertyValue st p = [] then None else Some (getPropertyValue st p))"
  by (simp add: styleValue_def getPropertyValue_def split: option.splits)

lemma guarded_keeps:
  "(\<And>y. sel (g y) = sel y) \<Longrightarrow> sel (guarded c g x) = sel x"
  by (simp add: guarded_def)

lemma guarded_sets:
  "(\<And>y. sel (g y) = v) \<Longrightarrow> sel (guarded c g x) = (if c then v else sel x)"
  by (simp add: guarded_def)

lemma visitFormats_link:
  "link (visitFormats resolveURL n f)
     = (case anchorTarget resolveURL n of None \<Rightarrow> link f | Some v \<Rightarrow> Some v)"
  by (cases n)
     (simp_all add: visitFormats_def anchorTarget_def guarded_keeps guarded_sets
        toLowerCase_is_a href_map_of)

lemma visitFormats_block:
  "block (visitFormats resolveURL n f) = (case blockKind n of None \<Rightarrow> block f | Some v \<Rightarrow> Some v)"
proof (cases n)
  case (Text s)
  then show ?thesis by (simp add: visitFormats_def blockKind_def)
next
  case (Element t a st cs)
  then show ?thesis
    by (simp add: visitFormats_def blockKind_BLOCK_ELEMENTS guarded_keeps guarded_sets)
qed

lemma visitFormats_fontSize:
  "fontSize (visitFormats resolveURL n f) =
     (case styleValue ''font-size'' n of None \<Rightarrow> fontSize f | Some v \<Rightarrow> Some v)"
proof (cases n)
  case (Text s)
  then show ?thesis by (simp add: visitFormats_def styleValue_def)
next
  case (Element t a st cs)
  then show ?thesis
    by (simp add: visitFormats_def styleValue_getPropertyValue guarded_keeps guarded_sets)
qed

lemma visitFormats_fontFamily:
  "fontFamily (visitFormats resolveURL n f) =
     (case styleValue ''font-family'' n of None \<Rightarrow> fontFamily f | Some v \<Rightarrow> Some v)"
proof (cases n)
  case (Text s)
  then show ?thesis by (simp add: visitFormats_def styleValue_def)
next
  case (Element t a st cs)
  then show ?thesis
    by (simp add: visitFormats_def styleValue_getPropertyValue guarded_keeps guarded_sets)
qed

lemma visitFormats_color:
  "color (visitFormats resolveURL n f) =
     (case styleValue ''color'' n of None \<Rightarrow> color f | Some v \<Rightarrow> Some v)"
proof (cases n)
  case (Text s)
  then show ?thesis by (simp add: visitFormats_def styleValue_def)
next
  case (Element t a st cs)
  then show ?thesis
    by (simp add: visitFormats_def styleValue_getPropertyValue guarded_keeps guarded_sets)
qed

lemma visitFormats_backgroundColor:
  "backgroundColor (visitFormats resolveURL n f) =
     (case styleValue ''background-color'' n of None \<Rightarrow> backgroundColor f | Some v \<Rightarrow> Some v)"
proof (cases n)
  case (Text s)
  then show ?thesis by (simp add: visitFormats_def styleValue_def)
next
  case (Element t a st cs)
  then show ?thesis
    by (simp add: visitFormats_def styleValue_getPropertyValue guarded_keeps guarded_sets)
qed

lemmas visitFormats_scalars =
  visitFormats_link visitFormats_block visitFormats_fontSize visitFormats_fontFamily
  visitFormats_color visitFormats_backgroundColor

lemma visitList_scalars:
  "link (visitList n f) = link f" "block (visitList n f) = block f"
  "fontSize (visitList n f) = fontSize f" "fontFamily (visitList n f) = fontFamily f"
  "color (visitList n f) = color f" "backgroundColor (visitList n f) = backgroundColor f"
  by (cases n; simp add: visitList_def guarded_keeps)+

lemma fold_visitList_scalars:
  "link (fold visitList ns f) = link f" "block (fold visitList ns f) = block f"
  "fontSize (fold visitList ns f) = fontSize f" "fontFamily (fold visitList ns f) = fontFamily f"
  "color (fold visitList ns f) = color f"
  "backgroundColor (fold visitList ns f) = backgroundColor f"
  by (induction ns arbitrary: f; simp add: visitList_scalars)+

lemma fold_visitFormats_scalars:
  "link (fold (visitFormats resolveURL) ns f) =
     (case lastAssigned (anchorTarget resolveURL) ns of None \<Rightarrow> link f | Some v \<Rightarrow> Some v)"
  "block (fold (visitFormats resolveURL) ns f) =
     (case lastAssigned blockKind ns of None \<Rightarrow> block f | Some v \<Rightarrow> Some v)"
  "fontSize (fold (visitFormats resolveURL) ns f) =
     (case lastAssigned (styleValue ''font-size'') ns of None \<Rightarrow> fontSize f | Some v \<Rightarrow> Some v)"
  "fontFamily (fold (visitFormats resolveURL) ns f) =
     (case lastAssigned (styleValue ''font-family'') ns of
        None \<Rightarrow> fontFamily f | Some v \<Rightarrow> Some v)"
  "color (fold (visitFormats resolveURL) ns f) =
     (case lastAssigned (styleValue ''color'') ns of None \<Rightarrow> color f | Some v \<Rightarrow> Some v)"
  "backgroundColor (fold (visitFormats resolveURL) ns f) =
     (case lastAssigned (styleValue ''background-color'') ns of
        None \<Rightarrow> backgroundColor f | Some v \<Rightarrow> Some v)"
  by (induction ns arbitrary: f;
      simp add: lastAssigned_Nil lastAssigned_Cons visitFormats_scalars
           split: option.splits)+

text \<open>
  Claim C7. For a selection with a range, each scalar that \<open>getActiveFormats\<close> reports
  (link target, font size, font family, text color, background color, block kind) is
  the value defined by the outermost inclusive ancestor of the start container that
  defines it: the node at the shortest prefix of the start container's path that does.
  None is reported when no inclusive ancestor defines the attribute. The link target is
  the resolved URL, whatever the browser's resolution \<open>resolveURL\<close> is.
\<close>

theorem active_formats_outermost_wins:
  "link (getActiveFormats resolveURL doc (Some r))
       = outermostOnPath (anchorTarget resolveURL) doc (startNode r)
   \<and> fontSize (getActiveFormats resolveURL doc (Some r))
       = outermostOnPath (styleValue ''font-size'') doc (startNode r)
   \<and> fontFamily (getActiveFormats resolveURL doc (Some r))
       = outermostOnPath (styleValue ''font-family'') doc (startNode r)
   \<and> color (getActiveFormats resolveURL doc (Some r))
       = outermostOnPath (styleValue ''color'') doc (startNode r)
   \<and> backgroundColor (getActiveFormats resolveURL doc (Some r))
       = outermostOnPath (styleValue ''background-color'') doc (startNode r)
   \<and> block (getActiveFormats resolveURL doc (Some r))
       = outermostOnPath blockKind doc (startNode r)"
  by (simp add: getActiveFormats_def getSelection_def fold_visitList_scalars
      fold_visitFormats_scalars noFormats_def lastAssigned_ancestorNodes split: option.splits)

text \<open>
  Claim C7, an instance: with the caret's text inside a green \<open>20px\<close> link, inside a blue
  paragraph, inside a red \<open>12px\<close> block quote, the color reported is red, not blue or
  green, the font size \<open>12px\<close>, the block kind that of the block quote, and the link the
  resolved URL of the anchor. No font family is reported.
\<close>

theorem active_formats_outermost_wins_witness:
  "link (getActiveFormats (\<lambda>u. ''https://example.org'' @ u) nestedColors
       (Some \<lparr>startNode = [0, 0, 0, 0], startOff = 0, endNode = [0, 0, 0, 0], endOff = 2\<rparr>))
     = Some ''https://example.org/x''
   \<and> color (getActiveFormats (\<lambda>u. ''https://example.org'' @ u) nestedColors
       (Some \<lparr>startNode = [0, 0, 0, 0], startOff = 0, endNode = [0, 0, 0, 0], endOff = 2\<rparr>))
     = Some ''red''
   \<and> fontSize (getActiveFormats (\<lambda>u. ''https://example.org'' @ u) nestedColors
       (Some \<lparr>startNode = [0, 0, 0, 0], startOff = 0, endNode = [0, 0, 0, 0], endOff = 2\<rparr>))
     = Some ''12px''
   \<and> block (getActiveFormats (\<lambda>u. ''https://example.org'' @ u) nestedColors
       (Some \<lparr>startNode = [0, 0, 0, 0], startOff = 0, endNode = [0, 0, 0, 0], endOff = 2\<rparr>))
     = Some ''blockquote''
   \<and> fontFamily (getActiveFormats (\<lambda>u. ''https://example.org'' @ u) nestedColors
       (Some \<lparr>startNode = [0, 0, 0, 0], startOff = 0, endNode = [0, 0, 0, 0], endOff = 2\<rparr>))
     = None"
  using active_formats_outermost_wins
    [of "\<lambda>u. ''https://example.org'' @ u" nestedColors
        "\<lparr>startNode = [0, 0, 0, 0], startOff = 0, endNode = [0, 0, 0, 0], endOff = 2\<rparr>"]
  by (simp add: outermostOnPath_def definedAtDepth_def nestedColors_def anchorTarget_def
      styleValue_def blockKind_def upt_rec)

section \<open>Properties of the styling commands\<close>

lemma dropWhile_rev_not_Nil:
  assumes "xs \<noteq> []" "\<not> P (hd xs)"
  shows "dropWhile P (rev xs) \<noteq> []"
proof -
  from assms(1) have "hd xs \<in> set (rev xs)" by simp
  with assms(2) show ?thesis by (auto simp: dropWhile_eq_Nil_conv)
qed

lemma trim_Nil_iff: "trim s = [] \<longleftrightarrow> list_all isSpace s"
proof (cases "dropWhile isSpace s = []")
  case True
  then have "list_all isSpace s" by (simp add: dropWhile_eq_Nil_conv list_all_iff)
  moreover have "trim s = []" unfolding trim_def True by simp
  ultimately show ?thesis by simp
next
  case False
  then have "\<not> isSpace (hd (dropWhile isSpace s))" by (rule hd_dropWhile)
  with False have "dropWhile isSpace (rev (dropWhile isSpace s)) \<noteq> []"
    by (rule dropWhile_rev_not_Nil)
  moreover from False have "\<not> list_all isSpace s"
    by (simp add: dropWhile_eq_Nil_conv list_all_iff)
  ultimately show ?thesis by (simp add: trim_def)
qed

lemma trim_append_Nil_iff: "trim (a @ b) = [] \<longleftrightarrow> trim a = [] \<and> trim b = []"
  by (simp add: trim_Nil_iff)

lemma removeEmptySpans_text:
  "trim (concat (map textContent (removeEmptySpans ns))) = []
     \<longleftrightarrow> trim (concat (map textContent ns)) = []"
  by (induction ns rule: removeEmptySpans.induct) (simp_all add: trim_append_Nil_iff)

lemma removeEmptySpans_img:
  "list_ex containsImg (removeEmptySpans ns) = list_ex containsImg ns"
  by (induction ns rule: removeEmptySpans.induct) auto

lemma removeEmptySpans_noEmptySpan: "list_all noEmptySpan (removeEmptySpans ns)"
  by (induction ns rule: removeEmptySpans.induct)
     (auto simp: removeEmptySpans_text removeEmptySpans_img)

lemma removeEmptySpans_top:
  "\<not> list_ex (hasTag ''SPAN'') ns \<Longrightarrow> \<not> list_ex (hasTag ''SPAN'') (removeEmptySpans ns)"
  by (induction ns rule: removeEmptySpans.induct) auto

lemma removeEmptySpans_noSpanInSpan:
  "list_all noSpanInSpan ns \<Longrightarrow> list_all noSpanInSpan (removeEmptySpans ns)"
  by (induction ns rule: removeEmptySpans.induct) (auto simp: removeEmptySpans_top)

lemma merge_noSpanInSpan:
  "\<not> list_ex (hasTag ''SPAN'') (fst (mergeInSpan ns ps))
     \<and> list_all noSpanInSpan (fst (mergeInSpan ns ps))"
  "list_all noSpanInSpan (mergeInOther ns)"
  by (induction ns ps and ns rule: mergeInSpan_mergeInOther.induct) auto

text \<open>
  What \<open>cleanupNestedSpans\<close> does achieve, on any span it is given: below that span no
  span is the direct child of a span, the given span counted as a parent, and every span
  strictly below it has text other than white space, or an image. The given span's own
  parent is never looked at, and the given span itself is never tested for emptiness.
\<close>

lemma cleanupNestedSpans_below_span:
  "noSpanInSpan (cleanupNestedSpans (Element ''SPAN'' a st cs))"
  "list_all noEmptySpan (childNodes (cleanupNestedSpans (Element ''SPAN'' a st cs)))"
proof -
  show "noSpanInSpan (cleanupNestedSpans (Element ''SPAN'' a st cs))"
    using merge_noSpanInSpan(1) [of cs st]
    by (simp add: cleanupNestedSpans_def removeEmptySpans_top removeEmptySpans_noSpanInSpan)
  show "list_all noEmptySpan (childNodes (cleanupNestedSpans (Element ''SPAN'' a st cs)))"
    by (simp add: cleanupNestedSpans_def removeEmptySpans_noEmptySpan)
qed

text \<open>
  Where the cleanup does its work: wrapping a selected red span that holds a nested span
  and an empty span merges the first two into the new span and removes the empty one.
\<close>

lemma wrap_around_spans_merges_and_prunes:
  "content (wrapSelectionWithSpan [(''color'', ''blue'')] 1000
        (Some \<lparr>startNode = [0], startOff = 1, endNode = [0], endOff = 2\<rparr>)
        (initialHistory
           [Element ''P'' [] []
              [Text ''a'',
               Element ''SPAN'' [] [(''color'', ''red'')]
                 [Text ''b'', Element ''SPAN'' [] [(''font-size'', ''12px'')] [Text ''c''],
                  Element ''SPAN'' [] [] []],
               Text ''d'']]))
     = [Element ''P'' [] []
          [Text ''a'',
           Element ''SPAN'' [] [(''color'', ''red''), (''font-size'', ''12px'')]
             [Text ''b'', Text ''c''],
           Text ''d'']]"
  by code_simp

text \<open>
  Claim C4. The invariant fails on a selection inside a span: \<open>setTextColor('blue')\<close> on
  \<open>ell\<close> in \<open><p><span style="color: red">Hello</span></p>\<close> inserts the new span
  directly inside the red one. The step that the source marks \<open>Clean up nested spans\<close>
  then runs on the new span and looks only below it, so the new span stays a direct
  child of a span.
\<close>

theorem wrap_inside_span_leaves_span_in_span:
  "content (setTextColor ''blue'' 1000
       (Some \<lparr>startNode = [0, 0, 0], startOff = 1, endNode = [0, 0, 0], endOff = 4\<rparr>)
       (initialHistory
          [Element ''P'' [] [] [Element ''SPAN'' [] [(''color'', ''red'')] [Text ''Hello'']]]))
     = [Element ''P'' [] []
          [Element ''SPAN'' [] [(''color'', ''red'')]
             [Text ''H'', Element ''SPAN'' [] [(''color'', ''blue'')] [Text ''ell''], Text ''o'']]]
   \<and> \<not> list_all noSpanInSpan
         (content (setTextColor ''blue'' 1000
            (Some \<lparr>startNode = [0, 0, 0], startOff = 1, endNode = [0, 0, 0], endOff = 4\<rparr>)
            (initialHistory
               [Element ''P'' [] []
                  [Element ''SPAN'' [] [(''color'', ''red'')] [Text ''Hello'']]])))"
  by code_simp

text \<open>
  The second half of the invariant fails too: the step marked \<open>Remove empty spans\<close>
  never tests the new span itself. \<open>setTextColor('blue')\<close> on the line break of
  \<open><p>a<br>b</p>\<close> leaves a span with neither text nor image.
\<close>

lemma wrap_of_line_break_leaves_empty_span:
  "content (setTextColor ''blue'' 1000
       (Some \<lparr>startNode = [0], startOff = 1, endNode = [0], endOff = 2\<rparr>)
       (initialHistory [Element ''P'' [] [] [Text ''a'', Element ''BR'' [] [] [], Text ''b'']]))
     = [Element ''P'' [] []
          [Text ''a'', Element ''SPAN'' [] [(''color'', ''blue'')] [Element ''BR'' [] [] []],
           Text ''b'']]
   \<and> \<not> list_all noEmptySpan
         (content (setTextColor ''blue'' 1000
            (Some \<lparr>startNode = [0], startOff = 1, endNode = [0], endOff = 2\<rparr>)
            (initialHistory
               [Element ''P'' [] [] [Text ''a'', Element ''BR'' [] [] [], Text ''b'']])))"
  by code_simp

section \<open>Commands without a selection to act on\<close>

text \<open>
  Claim C10. With a collapsed range, \<open>toggleInlineStyle\<close>, \<open>wrapSelectionWithSpan\<close>
  and the four commands built on it return the editor as it was: same document, same
  history, no call of \<open>saveHistory\<close>.
\<close>

theorem collapsed_selection_is_noop:
  assumes "collapsed r"
  shows "toggleInlineStyle resolveURL tagName now (Some r) s = s
       \<and> wrapSelectionWithSpan style now (Some r) s = s
       \<and> setFontSize v now (Some r) s = s
       \<and> setFontFamily v now (Some r) s = s
       \<and> setTextColor v now (Some r) s = s
       \<and> setBackgroundColor v now (Some r) s = s"
  using assms
  by (simp add: toggleInlineStyle_def wrapSelectionWithSpan_def setFontSize_def
      setFontFamily_def setTextColor_def setBackgroundColor_def getSelection_def)

text \<open>Claim C10, an instance: a caret inside \<open>Hello\<close>.\<close>

theorem collapsed_selection_is_noop_witness:
  "toggleInlineStyle (\<lambda>u. u) TagB 1000
       (Some \<lparr>startNode = [0, 0], startOff = 2, endNode = [0, 0], endOff = 2\<rparr>)
       (initialHistory [Element ''P'' [] [] [Text ''Hello'']])
     = initialHistory [Element ''P'' [] [] [Text ''Hello'']]
   \<and> setTextColor ''red'' 1000
       (Some \<lparr>startNode = [0, 0], startOff = 2, endNode = [0, 0], endOff = 2\<rparr>)
       (initialHistory [Element ''P'' [] [] [Text ''Hello'']])
     = initialHistory [Element ''P'' [] [] [Text ''Hello'']]"
proof -
  have c: "collapsed \<lparr>startNode = [0, 0], startOff = 2, endNode = [0, 0], endOff = 2\<rparr>"
    by (simp add: collapsed_def)
  from collapsed_selection_is_noop [OF c] show ?thesis by simp
qed

text \<open>
  With no range at all, every command that tests the range before it calls
  \<open>saveHistory\<close> returns the editor as it was.
\<close>

lemma missing_range_is_noop:
  "toggleInlineStyle resolveURL tagName now None s = s"
  "setBlockType blockTag now None s = s"
  "toggleList resolveURL parseHTML listType now None s = s"
  "insertLink url now None s = s"
  "removeLink now None s = s"
  "wrapSelectionWithSpan style now None s = s"
  "setFontSize v now None s = s"
  "setFontFamily v now None s = s"
  "setTextColor v now None s = s"
  "setBackgroundColor v now None s = s"
  "insertImage src alt now None s = s"
  by (simp_all add: toggleInlineStyle_def setBlockType_def toggleList_def insertLink_def
      removeLink_def wrapSelectionWithSpan_def setFontSize_def setFontFamily_def
      setTextColor_def setBackgroundColor_def insertImage_def getSelection_def)

text \<open>
  \<open>handlePaste\<close> calls \<open>saveHistory\<close> first: with no range the document stays,
  and whenever the save is not suppressed or coalesced an entry is pushed and the redo
  stack is emptied.
\<close>

lemma paste_without_range:
  assumes "\<not> isUndoRedoing s" "50 \<le> now - lastSaveTime s"
  shows "handlePaste e now None s
     = s\<lparr>lastSaveTime := now,
         undoStack := pushCapped (undoStack s) \<lparr>html = content s, cursorPosition = None\<rparr>,
         redoStack := []\<rparr>"
  using assms by (simp add: handlePaste_def saveHistory_def getCursorPosition_def)

text \<open>
  Claim C9 at \<open>handlePaste\<close> with no range, on a fresh editor: the document is
  unchanged, but \<open>saveHistory\<close> has already run, so the undo stack holds an entry.
\<close>

theorem paste_without_range_pushes_entry:
  "handlePaste \<lparr>textHtml = None, textPlain = ''x''\<rparr> 1000 None
       (initialHistory [Element ''P'' [] [] [Text ''Hello'']])
     = \<lparr>content = [Element ''P'' [] [] [Text ''Hello'']],
        undoStack = [\<lparr>html = [Element ''P'' [] [] [Text ''Hello'']], cursorPosition = None\<rparr>],
        redoStack = [], isUndoRedoing = False, lastSaveTime = 1000, debounceTimeout = None\<rparr>"
  by (simp add: handlePaste_def saveHistory_def getCursorPosition_def initialHistory_def
      pushCapped_def MAX_HISTORY_SIZE_def)

section \<open>Properties of the image resize\<close>

text \<open>One pointer move of each controller, and the drag of the resize scenario.\<close>

lemma editor_resize_step:
  assumes "isResizing st" "selectedImage st \<noteq> None" "resizeStart st = Some d"
  shows "selectedImage (handleResizeMouseMove clientX st)
     = Some (max 50 (min 800 (startWidth d + (clientX - startX d))),
             max 50 (min 800 (startWidth d + (clientX - startX d))) / startAspectRatio d)"
  using assms by (simp add: handleResizeMouseMove_def Let_def)

lemma wrapper_resize_step:
  assumes "wrapperResizing st"
  shows "stringIncludes (resizeCorner st) ''right'' \<Longrightarrow>
           dimensions (handleMouseMove clientX st)
             = (min 800 (max 50 (fst (startDimensions st) + (clientX - fst (startPos st)))),
                min 800 (max 50 (fst (startDimensions st) + (clientX - fst (startPos st))))
                  / aspectRatio st)"
    and "\<not> stringIncludes (resizeCorner st) ''right'' \<Longrightarrow>
         stringIncludes (resizeCorner st) ''left'' \<Longrightarrow>
           dimensions (handleMouseMove clientX st)
             = (min 800 (max 50 (fst (startDimensions st) - (clientX - fst (startPos st)))),
                min 800 (max 50 (fst (startDimensions st) - (clientX - fst (startPos st))))
                  / aspectRatio st)"
  using assms by (simp_all add: handleMouseMove_def Let_def)

lemma resize_scenario_bottom_right:
  "selectedImage (handleResizeMouseMove 100
       (handleResizeMouseDown 0 0 ''bottom-right''
          \<lparr>selectedImage = Some (400, 200), isResizing = False, resizeStart = None\<rparr>))
     = Some (500, 250)"
  by (simp add: handleResizeMouseMove_def handleResizeMouseDown_def)

lemma wrapper_resize_left_corner:
  "dimensions (handleMouseMove 100
       (handleMouseDown 0 0 ''bottom-left'' (400, 200)
          \<lparr>dimensions = (400, 200), wrapperResizing = False, aspectRatio = 2,
           startPos = (0, 0), startDimensions = (0, 0), resizeCorner = []\<rparr>))
     = (300, 150)"
  by (simp add: handleMouseMove_def handleMouseDown_def Let_def)

text \<open>
  Claim C8 at the editor's bottom-left handle: image 400 by 200, pointer moved by +100.
  The width grows to 500 where a left corner should shrink it to 300.
\<close>

theorem editor_resize_ignores_corner:
  "selectedImage (handleResizeMouseMove 100
       (handleResizeMouseDown 0 0 ''bottom-left''
          \<lparr>selectedImage = Some (400, 200), isResizing = False, resizeStart = None\<rparr>))
     = Some (500, 250)"
  by (simp add: handleResizeMouseMove_def handleResizeMouseDown_def)

end
